theory Spec2Isabelle
  imports Main
begin

section \<open>Order commands and the command channel\<close>

text \<open>
  The client module \<^verbatim>\<open>piker/exchange/_client.py\<close> builds order commands as Python
  dictionaries with string keys. A dictionary literal is modelled as an association list
  in the order the literal is written; a lookup \<^verbatim>\<open>d[k]\<close> is \<open>map_of d k\<close> and raises
  \<^verbatim>\<open>KeyError\<close> when the key is missing. The numeric fields (\<^verbatim>\<open>price\<close>, \<^verbatim>\<open>size\<close>) are
  Python floats on which the module does no arithmetic: their type is the parameter \<open>'n\<close>.
  The type of \<^verbatim>\<open>symbol.brokers\<close> is the parameter \<open>'b\<close>.
\<close>

datatype ('n, 'b) pyval = Str string | Num 'n | Brokers 'b

type_synonym ('n, 'b) msg = "(string \<times> ('n, 'b) pyval) list"

text \<open>
  \<^verbatim>\<open>Symbol\<close> is imported from \<^verbatim>\<open>..data._source\<close>; \<^verbatim>\<open>send\<close> reads its attributes \<^verbatim>\<open>key\<close>
  and \<^verbatim>\<open>brokers\<close> only.
\<close>

record 'b Symbol =
  key :: string
  brokers :: 'b

datatype error = KeyError string | WouldBlock

text \<open>
  Modelled from the spec: the memory channel made by \<^verbatim>\<open>trio.open_memory_channel(100)\<close> is
  library code. The spec describes the Command Channel as an ordered queue of commands of
  fixed capacity with one producing and one consuming end. The module never closes either
  end of the channel.
\<close>

record 'a channel =
  buf :: "'a list"
  max_buffer_size :: nat

text \<open>
  Modelled from the spec: a channel is created empty with the capacity that is asked for.
\<close>

definition open_memory_channel :: "nat \<Rightarrow> 'a channel" where
  "open_memory_channel n = \<lparr>buf = [], max_buffer_size = n\<rparr>"

text \<open>
  Modelled from the spec: the enqueue is non-blocking; when the queue is full it fails at
  once with a "channel full" condition (trio's \<^verbatim>\<open>WouldBlock\<close>) and the queue stays as it
  is; otherwise the command goes to the end of the queue.
\<close>

definition send_nowait :: "'a channel \<Rightarrow> 'a \<Rightarrow> error + 'a channel" where
  "send_nowait ch x =
     (if length (buf ch) < max_buffer_size ch
      then Inr (ch\<lparr>buf := buf ch @ [x]\<rparr>)
      else Inl WouldBlock)"

text \<open>
  Modelled from the spec: the consuming end takes the oldest command first. \<open>None\<close> when
  the queue is empty (the receiving task stays suspended), otherwise the oldest item and
  the channel without it.
\<close>

definition receive :: "'a channel \<Rightarrow> ('a \<times> 'a channel) option" where
  "receive ch =
     (case buf ch of
        [] \<Rightarrow> None
      | x # xs \<Rightarrow> Some (x, ch\<lparr>buf := xs\<rparr>))"

section \<open>The order book\<close>

text \<open>
  \<^verbatim>\<open>OrderBook\<close> is a dataclass with the fields \<^verbatim>\<open>_to_ems\<close>, \<^verbatim>\<open>_from_order_book\<close>,
  \<^verbatim>\<open>_sent_orders\<close> and \<^verbatim>\<open>_ready_to_receive\<close>. The only place that constructs one,
  \<^verbatim>\<open>get_orders\<close>, passes the two ends of one memory channel as \<^verbatim>\<open>_to_ems\<close> and
  \<^verbatim>\<open>_from_order_book\<close>; the field \<open>ems_chan\<close> is the state of that channel, which both
  ends share. \<^verbatim>\<open>_ready_to_receive\<close> is a \<^verbatim>\<open>trio.Event\<close>: a flag that starts unset.
\<close>

record ('n, 'b) OrderBook =
  ems_chan :: "('n, 'b) msg channel"
  sent_orders :: "string \<rightharpoonup> ('n, 'b) msg"
  ready_to_receive :: bool

text \<open>The dictionary literal that \<^verbatim>\<open>send\<close> builds.\<close>

definition order_cmd ::
  "string \<Rightarrow> 'b Symbol \<Rightarrow> 'n \<Rightarrow> 'n \<Rightarrow> string \<Rightarrow> string \<Rightarrow> ('n, 'b) msg" where
  "order_cmd uuid symbol price size' action exec_mode =
     [(''action'', Str action),
      (''price'', Num price),
      (''size'', Num size'),
      (''symbol'', Str (key symbol)),
      (''brokers'', Brokers (brokers symbol)),
      (''oid'', Str uuid),
      (''exec_mode'', Str exec_mode)]"

text \<open>
  A method of the book returns the book after the call together with the outcome: \<open>Inl\<close>
  the exception that propagates, \<open>Inr\<close> the returned value. \<^verbatim>\<open>send\<close> writes the registry
  first and calls \<^verbatim>\<open>send_nowait\<close> second, so the registry write stays when the enqueue
  raises.
\<close>

definition send ::
  "('n, 'b) OrderBook \<Rightarrow> string \<Rightarrow> 'b Symbol \<Rightarrow> 'n \<Rightarrow> 'n \<Rightarrow> string \<Rightarrow> string
     \<Rightarrow> ('n, 'b) OrderBook \<times> (error + ('n, 'b) msg)" where
  "send self uuid symbol price size' action exec_mode =
     (let cmd = order_cmd uuid symbol price size' action exec_mode;
          self1 = self\<lparr>sent_orders := (sent_orders self)(uuid \<mapsto> cmd)\<rparr>
      in case send_nowait (ems_chan self1) cmd of
           Inl e \<Rightarrow> (self1, Inl e)
         | Inr ch \<Rightarrow> (self1\<lparr>ems_chan := ch\<rparr>, Inr cmd))"

text \<open>
  \<^verbatim>\<open>modify\<close> is a coroutine whose body is \<^verbatim>\<open>...\<close>: awaiting it evaluates the constant
  \<^verbatim>\<open>Ellipsis\<close> and returns Python's \<^verbatim>\<open>None\<close>, modelled as \<open>None\<close> of \<open>bool option\<close> (the
  annotated return type is \<^verbatim>\<open>bool\<close>).
\<close>

definition modify ::
  "('n, 'b) OrderBook \<Rightarrow> string \<Rightarrow> 'n \<Rightarrow> ('n, 'b) OrderBook \<times> (error + bool option)" where
  "modify self oid price = (self, Inr None)"

text \<open>The dictionary literal that \<^verbatim>\<open>cancel\<close> builds from the stored symbol.\<close>

definition cancel_msg :: "string \<Rightarrow> ('n, 'b) pyval \<Rightarrow> ('n, 'b) msg" where
  "cancel_msg uuid symb =
     [(''action'', Str ''cancel''), (''oid'', Str uuid), (''symbol'', symb)]"

text \<open>
  \<^verbatim>\<open>cancel\<close> has no \<^verbatim>\<open>return\<close>: on success it returns \<^verbatim>\<open>None\<close>, modelled as \<open>()\<close>. Both
  subscripts, \<^verbatim>\<open>self._sent_orders[uuid]\<close> and \<^verbatim>\<open>cmd['symbol']\<close>, raise \<^verbatim>\<open>KeyError\<close> on a
  missing key.
\<close>

definition cancel ::
  "('n, 'b) OrderBook \<Rightarrow> string \<Rightarrow> ('n, 'b) OrderBook \<times> (error + unit)" where
  "cancel self uuid =
     (case sent_orders self uuid of
        None \<Rightarrow> (self, Inl (KeyError uuid))
      | Some cmd \<Rightarrow>
          (case map_of cmd ''symbol'' of
             None \<Rightarrow> (self, Inl (KeyError ''symbol''))
           | Some symb \<Rightarrow>
               (case send_nowait (ems_chan self) (cancel_msg uuid symb) of
                  Inl e \<Rightarrow> (self, Inl e)
                | Inr ch \<Rightarrow> (self\<lparr>ems_chan := ch\<rparr>, Inr ()))))"

section \<open>The singleton factory\<close>

text \<open>
  The module global \<^verbatim>\<open>_orders\<close> holds \<^verbatim>\<open>None\<close> or a reference to an \<^verbatim>\<open>OrderBook\<close>. Objects
  live in a store, a list indexed by reference; constructing an object appends it, so a
  new reference is \<open>length (heap p)\<close>. Nothing in the module assigns \<^verbatim>\<open>_orders\<close> except
  \<^verbatim>\<open>get_orders\<close>.
\<close>

record ('n, 'b) process =
  heap :: "('n, 'b) OrderBook list"
  orders :: "nat option"

text \<open>
  \<^verbatim>\<open>get_orders(emsd_uid)\<close>: the branch on \<^verbatim>\<open>emsd_uid is not None\<close> is \<^verbatim>\<open>pass\<close>, so the
  argument has no effect. \<^verbatim>\<open>OrderBook(*trio.open_memory_channel(100))\<close> takes the defaults of
  the dataclass for the other two fields: an empty dictionary and the event of the class,
  which is unset until \<^verbatim>\<open>send_order_cmds\<close> sets it (and that function obtains the book
  first).
\<close>

definition get_orders ::
  "(string \<times> string) option \<Rightarrow> ('n, 'b) process \<Rightarrow> nat \<times> ('n, 'b) process" where
  "get_orders emsd_uid p =
     (case orders p of
        None \<Rightarrow>
          (let r = length (heap p);
               book = \<lparr>ems_chan = open_memory_channel 100,
                       sent_orders = Map.empty,
                       ready_to_receive = False\<rparr>
           in (r, p\<lparr>heap := heap p @ [book], orders := Some r\<rparr>))
      | Some r \<Rightarrow> (r, p))"

text \<open>
  A method called through a reference changes the object in the store and nothing else.
  (A reference handed out by \<open>get_orders\<close> is always in range; on any other number the
  update leaves the store as it is.)
\<close>

definition update_book ::
  "nat \<Rightarrow> (('n, 'b) OrderBook \<Rightarrow> ('n, 'b) OrderBook) \<Rightarrow> ('n, 'b) process \<Rightarrow> ('n, 'b) process" where
  "update_book r f p = p\<lparr>heap := (heap p)[r := f (heap p ! r)]\<rparr>"

text \<open>What a client of the module does: ask for the book, or call a method on a book.\<close>

datatype ('n, 'b) action = GetOrders "(string \<times> string) option"
  | Method nat "('n, 'b) OrderBook \<Rightarrow> ('n, 'b) OrderBook"

text \<open>Running client actions; the references that \<open>get_orders\<close> returned are collected.\<close>

fun perform :: "('n, 'b) process \<Rightarrow> ('n, 'b) action list \<Rightarrow> nat list \<times> ('n, 'b) process" where
  "perform p [] = ([], p)"
| "perform p (GetOrders uid # as) =
     (let (r, p1) = get_orders uid p; (rs, p2) = perform p1 as in (r # rs, p2))"
| "perform p (Method r f # as) = perform (update_book r f p) as"

section \<open>The relay task\<close>

text \<open>
  \<^verbatim>\<open>send_order_cmds\<close> is an asynchronous generator. Up to its loop it obtains the book and
  sets the event; each turn of the loop \<^verbatim>\<open>async for cmd in orders_stream: yield cmd\<close> takes
  one item from the receiving end and yields it (the log call between the two has no
  effect on the state). A turn on an empty channel stays suspended: \<open>None\<close>.
\<close>

definition send_order_cmds_start :: "('n, 'b) process \<Rightarrow> nat \<times> ('n, 'b) process" where
  "send_order_cmds_start p =
     (let (r, p1) = get_orders None p
      in (r, update_book r (\<lambda>book. book\<lparr>ready_to_receive := True\<rparr>) p1))"

definition send_order_cmds_next ::
  "('n, 'b) OrderBook \<Rightarrow> (('n, 'b) msg \<times> ('n, 'b) OrderBook) option" where
  "send_order_cmds_next book =
     (case receive (ems_chan book) of
        None \<Rightarrow> None
      | Some (cmd, ch) \<Rightarrow> Some (cmd, book\<lparr>ems_chan := ch\<rparr>))"

text \<open>
  The scheduler is cooperative and \<^verbatim>\<open>send\<close> is synchronous, so an execution is an
  interleaving of whole \<^verbatim>\<open>send\<close> calls and whole turns of the relay loop. A run records
  the commands that \<^verbatim>\<open>send\<close> returned (\<open>sent\<close>, in call order) and the commands that the
  relay yielded (\<open>yielded\<close>, in yield order). A \<^verbatim>\<open>send\<close> that raises is caught by the caller
  and the run goes on.
\<close>

datatype ('n, 'b) call = Send string "'b Symbol" 'n 'n string string | Next

record ('n, 'b) run_state =
  book :: "('n, 'b) OrderBook"
  sent :: "('n, 'b) msg list"
  yielded :: "('n, 'b) msg list"

fun step :: "('n, 'b) run_state \<Rightarrow> ('n, 'b) call \<Rightarrow> ('n, 'b) run_state" where
  "step st (Send uuid symbol price size' action exec_mode) =
     (case send (book st) uuid symbol price size' action exec_mode of
        (b, Inl e) \<Rightarrow> st\<lparr>book := b\<rparr>
      | (b, Inr cmd) \<Rightarrow> st\<lparr>book := b, sent := sent st @ [cmd]\<rparr>)"
| "step st Next =
     (case send_order_cmds_next (book st) of
        None \<Rightarrow> st
      | Some (cmd, b) \<Rightarrow> st\<lparr>book := b, yielded := yielded st @ [cmd]\<rparr>)"

fun run :: "('n, 'b) run_state \<Rightarrow> ('n, 'b) call list \<Rightarrow> ('n, 'b) run_state" where
  "run st [] = st"
| "run st (c # cs) = run (step st c) cs"

definition start :: "('n, 'b) OrderBook \<Rightarrow> ('n, 'b) run_state" where
  "start b = \<lparr>book = b, sent = [], yielded = []\<rparr>"

text \<open>
  The last command sent for an order id in a list of calls: the command of the last
  \<^verbatim>\<open>send\<close> call with that id, if there is one.
\<close>

fun last_sent :: "string \<Rightarrow> ('n, 'b) call list \<Rightarrow> ('n, 'b) msg option" where
  "last_sent u [] = None"
| "last_sent u (Send uuid symbol price size' action exec_mode # cs) =
     (case last_sent u cs of
        Some cmd \<Rightarrow> Some cmd
      | None \<Rightarrow>
          if uuid = u then Some (order_cmd uuid symbol price size' action exec_mode) else None)"
| "last_sent u (Next # cs) = last_sent u cs"

fun sent_ids :: "('n, 'b) call list \<Rightarrow> string list" where
  "sent_ids [] = []"
| "sent_ids (Send uuid symbol price size' action exec_mode # cs) = uuid # sent_ids cs"
| "sent_ids (Next # cs) = sent_ids cs"

section \<open>The broker API proxy\<close>

text \<open>
  \<^verbatim>\<open>api(brokermod, methname, **kwargs)\<close> in \<^verbatim>\<open>piker/brokers/core.py\<close>. The client that
  \<^verbatim>\<open>brokermod.get_client()\<close> yields is the argument \<open>client\<close>. An object is the map from
  its attribute names to its methods, so that \<^verbatim>\<open>getattr(obj, name, None)\<close> is the lookup.
  A method has the parameters that \<^verbatim>\<open>inspect.signature\<close> reports (each with its name and
  whether a call may leave it out: it has a default, or is \<^verbatim>\<open>*args\<close> or \<^verbatim>\<open>**kwargs\<close>) and
  its behaviour on keyword arguments: \<open>Inl\<close> an exception, \<open>Inr\<close> the result, where \<open>None\<close>
  is Python's \<^verbatim>\<open>None\<close>.
\<close>

record parameter =
  pname :: string
  optional :: bool

record ('e, 'v) pymethod =
  parameters :: "parameter list"
  invoke :: "(string \<times> 'v) list \<Rightarrow> 'e + 'v option"

record ('e, 'v) client =
  api_attrs :: "string \<rightharpoonup> ('e, 'v) pymethod"
  attrs :: "string \<rightharpoonup> ('e, 'v) pymethod"

definition api :: "('e, 'v) client \<Rightarrow> string \<Rightarrow> (string \<times> 'v) list \<Rightarrow> 'e + 'v option" where
  "api client methname kwargs =
     (let meth = api_attrs client methname;
          meth = (case meth of None \<Rightarrow> attrs client methname | Some m \<Rightarrow> Some m)
      in case meth of
           None \<Rightarrow> Inr None
         | Some m \<Rightarrow>
             if kwargs = [] \<and> parameters m \<noteq> [] then Inr None
             else invoke m kwargs)"

text \<open>A method requires arguments when some parameter cannot be left out of a call.\<close>

definition requires_arguments :: "('e, 'v) pymethod \<Rightarrow> bool" where
  "requires_arguments m = list_ex (\<lambda>p. \<not> optional p) (parameters m)"

section \<open>Example states\<close>

text \<open>
  The instrument and the first command of the spec's example scenario (numbers as
  integers), a new book, the book after that one \<^verbatim>\<open>send\<close>, and the book after one
  hundred such calls with no turn of the relay in between.
\<close>

definition aapl :: "string list Symbol" where
  "aapl = \<lparr>key = ''AAPL'', brokers = [''ib'']\<rparr>"

definition buy_cmd :: "(int, string list) msg" where
  "buy_cmd = order_cmd ''abc-1'' aapl 150 100 ''buy'' ''dark''"

definition empty_book :: "(int, string list) OrderBook" where
  "empty_book = \<lparr>ems_chan = open_memory_channel 100, sent_orders = Map.empty,
                  ready_to_receive = False\<rparr>"

definition one_book :: "(int, string list) OrderBook" where
  "one_book = \<lparr>ems_chan = \<lparr>buf = [buy_cmd], max_buffer_size = 100\<rparr>,
                sent_orders = [''abc-1'' \<mapsto> buy_cmd],
                ready_to_receive = False\<rparr>"

definition full_book :: "(int, string list) OrderBook" where
  "full_book = \<lparr>ems_chan = \<lparr>buf = replicate 100 buy_cmd, max_buffer_size = 100\<rparr>,
                 sent_orders = [''abc-1'' \<mapsto> buy_cmd],
                 ready_to_receive = False\<rparr>"

text \<open>A process in which \<^verbatim>\<open>get_orders\<close> has not been called yet.\<close>

definition fresh_process :: "(int, string list) process" where
  "fresh_process = \<lparr>heap = [], orders = None\<rparr>"

text \<open>
  A client whose method \<^verbatim>\<open>quote(self, tickers=None)\<close> has one parameter, with a default,
  and no \<^verbatim>\<open>api\<close> attribute of that name.
\<close>

definition quote_meth :: "(string, string) pymethod" where
  "quote_meth = \<lparr>parameters = [\<lparr>pname = ''tickers'', optional = True\<rparr>],
                  invoke = (\<lambda>kwargs. Inr (Some ''quotes''))\<rparr>"

definition quote_client :: "(string, string) client" where
  "quote_client = \<lparr>api_attrs = Map.empty, attrs = [''quote'' \<mapsto> quote_meth]\<rparr>"

section \<open>Properties of \<open>send\<close>\<close>

lemma send_room:
  "length (buf (ems_chan self)) < max_buffer_size (ems_chan self) \<Longrightarrow>
   send self uuid symbol price size' action exec_mode =
     (self\<lparr>sent_orders :=
              (sent_orders self)(uuid \<mapsto> order_cmd uuid symbol price size' action exec_mode),
           ems_chan :=
              (ems_chan self)\<lparr>buf := buf (ems_chan self) @
                                [order_cmd uuid symbol price size' action exec_mode]\<rparr>\<rparr>,
      Inr (order_cmd uuid symbol price size' action exec_mode))"
  by (simp add: send_def send_nowait_def Let_def)

lemma send_no_room:
  "\<not> length (buf (ems_chan self)) < max_buffer_size (ems_chan self) \<Longrightarrow>
   send self uuid symbol price size' action exec_mode =
     (self\<lparr>sent_orders :=
              (sent_orders self)(uuid \<mapsto> order_cmd uuid symbol price size' action exec_mode)\<rparr>,
      Inl WouldBlock)"
  by (simp add: send_def send_nowait_def Let_def)

lemma send_raises_only_when_full:
  "send self uuid symbol price size' action exec_mode = (self', Inl err) \<Longrightarrow>
   \<not> length (buf (ems_chan self)) < max_buffer_size (ems_chan self)"
  by (rule notI) (simp add: send_room)

lemma send_writes_registry:
  "sent_orders (fst (send self uuid symbol price size' action exec_mode)) =
     (sent_orders self)(uuid \<mapsto> order_cmd uuid symbol price size' action exec_mode)"
  by (cases "length (buf (ems_chan self)) < max_buffer_size (ems_chan self)")
     (simp_all add: send_room send_no_room)

section \<open>Properties of a run\<close>

lemma step_Send_registry:
  "sent_orders (book (step st (Send uuid symbol price size' action exec_mode))) =
     (sent_orders (book st))(uuid \<mapsto> order_cmd uuid symbol price size' action exec_mode)"
  by (cases "length (buf (ems_chan (book st))) < max_buffer_size (ems_chan (book st))")
     (simp_all add: send_room send_no_room)

lemma step_Next_registry: "sent_orders (book (step st Next)) = sent_orders (book st)"
  by (simp add: send_order_cmds_next_def receive_def split: list.splits)

lemma run_registry:
  "sent_orders (book (run st cs)) u =
     (case last_sent u cs of None \<Rightarrow> sent_orders (book st) u | Some c \<Rightarrow> Some c)"
proof (induction cs arbitrary: st rule: sent_ids.induct)
  case 1
  show ?case by simp
next
  case (2 uuid symbol price size' action exec_mode cs)
  show ?case
    using "2.IH" [of "step st (Send uuid symbol price size' action exec_mode)"]
    by (simp add: step_Send_registry del: step.simps split: option.splits)
next
  case (3 cs)
  show ?case
    using "3.IH" [of "step st Next"]
    by (simp add: step_Next_registry del: step.simps split: option.splits)
qed

lemma last_sent_None: "last_sent u cs = None \<longleftrightarrow> u \<notin> set (sent_ids cs)"
  by (induction cs rule: sent_ids.induct) (auto split: option.splits)

lemma run_registry_dom:
  "dom (sent_orders (book (run st cs))) = dom (sent_orders (book st)) \<union> set (sent_ids cs)"
proof (rule set_eqI)
  fix u
  show "u \<in> dom (sent_orders (book (run st cs))) \<longleftrightarrow>
        u \<in> dom (sent_orders (book st)) \<union> set (sent_ids cs)"
    using last_sent_None [of u cs]
    by (auto simp: run_registry dom_def split: option.splits)
qed

text \<open>One turn of the relay takes the oldest pending command, if there is one.\<close>

lemma step_Next_take:
  "yielded (step st Next) = yielded st @ take 1 (buf (ems_chan (book st)))
   \<and> buf (ems_chan (book (step st Next))) = drop 1 (buf (ems_chan (book st)))
   \<and> sent (step st Next) = sent st"
  by (simp add: send_order_cmds_next_def receive_def split: list.splits)

lemma step_fifo:
  "\<exists>zs. sent (step st c) = sent st @ zs \<and>
        yielded (step st c) @ buf (ems_chan (book (step st c))) =
        yielded st @ buf (ems_chan (book st)) @ zs"
proof (cases c)
  case (Send uuid symbol price size' action exec_mode)
  then show ?thesis
    by (cases "length (buf (ems_chan (book st))) < max_buffer_size (ems_chan (book st))")
       (simp_all add: send_room send_no_room)
next
  case Next
  have "take 1 xs @ drop 1 xs = xs" for xs :: "'c list"
    by simp
  then show ?thesis
    using step_Next_take [of st] Next by (simp del: step.simps)
qed

text \<open>
  The invariant of a run: what has been yielded, followed by what is pending, is what was
  yielded and pending at the start followed by what has been sent since.
\<close>

lemma run_fifo_gen:
  "\<exists>zs. sent (run st cs) = sent st @ zs \<and>
        yielded (run st cs) @ buf (ems_chan (book (run st cs))) =
        yielded st @ buf (ems_chan (book st)) @ zs"
proof (induction cs arbitrary: st)
  case Nil
  show ?case by simp
next
  case (Cons c cs)
  obtain zs where zs: "sent (run (step st c) cs) = sent (step st c) @ zs"
    and inv: "yielded (run (step st c) cs) @ buf (ems_chan (book (run (step st c) cs))) =
              yielded (step st c) @ buf (ems_chan (book (step st c))) @ zs"
    using Cons.IH [of "step st c"] by blast
  obtain ys where ys: "sent (step st c) = sent st @ ys"
    and stp: "yielded (step st c) @ buf (ems_chan (book (step st c))) =
              yielded st @ buf (ems_chan (book st)) @ ys"
    using step_fifo [of st c] by blast
  have "sent (run st (c # cs)) = sent st @ (ys @ zs)"
    using zs ys by simp
  moreover have "yielded (run st (c # cs)) @ buf (ems_chan (book (run st (c # cs)))) =
        yielded st @ buf (ems_chan (book st)) @ (ys @ zs)"
    using inv stp by simp
  ultimately show ?case by blast
qed

lemma run_fifo:
  "yielded (run (start b) cs) @ buf (ems_chan (book (run (start b) cs))) =
   buf (ems_chan b) @ sent (run (start b) cs)"
  using run_fifo_gen [of "start b" cs] by (auto simp: start_def)

lemma run_append: "run st (cs @ ds) = run (run st cs) ds"
  by (induction cs arbitrary: st) simp_all

lemma run_drain:
  "length (buf (ems_chan (book st))) \<le> n \<Longrightarrow>
   yielded (run st (replicate n Next)) = yielded st @ buf (ems_chan (book st))
   \<and> buf (ems_chan (book (run st (replicate n Next)))) = []
   \<and> sent (run st (replicate n Next)) = sent st"
proof (induction n arbitrary: st)
  case 0
  then show ?case by simp
next
  case (Suc n)
  have len: "length (buf (ems_chan (book (step st Next)))) \<le> n"
    using Suc.prems step_Next_take [of st] by simp
  have "take 1 xs @ drop 1 xs = xs" for xs :: "'c list"
    by simp
  then have "yielded (step st Next) @ buf (ems_chan (book (step st Next))) =
        yielded st @ buf (ems_chan (book st))"
    using step_Next_take [of st] by (simp del: step.simps)
  then show ?case
    using Suc.IH [OF len] step_Next_take [of st] by (simp del: step.simps)
qed

text \<open>
  The full book is reached from the new book by one hundred \<^verbatim>\<open>send\<close> calls for the same
  order with no turn of the relay in between.
\<close>

lemma step_Send_room:
  "length (buf (ems_chan (book st))) < max_buffer_size (ems_chan (book st)) \<Longrightarrow>
   sent_orders (book (step st (Send uuid symbol price size' action exec_mode))) =
     (sent_orders (book st))(uuid \<mapsto> order_cmd uuid symbol price size' action exec_mode)
   \<and> buf (ems_chan (book (step st (Send uuid symbol price size' action exec_mode)))) =
       buf (ems_chan (book st)) @ [order_cmd uuid symbol price size' action exec_mode]
   \<and> max_buffer_size (ems_chan (book (step st (Send uuid symbol price size' action exec_mode)))) =
       max_buffer_size (ems_chan (book st))
   \<and> ready_to_receive (book (step st (Send uuid symbol price size' action exec_mode))) =
       ready_to_receive (book st)"
  by (simp add: send_room)

lemma run_replicate_Send:
  "length (buf (ems_chan (book st))) + Suc n \<le> max_buffer_size (ems_chan (book st)) \<Longrightarrow>
   sent_orders (book (run st (replicate (Suc n) (Send uuid symbol price size' action exec_mode)))) =
     (sent_orders (book st))(uuid \<mapsto> order_cmd uuid symbol price size' action exec_mode)
   \<and> buf (ems_chan (book (run st (replicate (Suc n)
         (Send uuid symbol price size' action exec_mode))))) =
       buf (ems_chan (book st)) @
         replicate (Suc n) (order_cmd uuid symbol price size' action exec_mode)
   \<and> max_buffer_size (ems_chan (book (run st (replicate (Suc n)
         (Send uuid symbol price size' action exec_mode))))) =
       max_buffer_size (ems_chan (book st))
   \<and> ready_to_receive (book (run st (replicate (Suc n)
         (Send uuid symbol price size' action exec_mode)))) =
       ready_to_receive (book st)"
proof (induction n arbitrary: st)
  case 0
  then have "length (buf (ems_chan (book st))) < max_buffer_size (ems_chan (book st))"
    by simp
  from step_Send_room [OF this] show ?case
    by (simp del: step.simps)
next
  case (Suc n)
  let ?c = "Send uuid symbol price size' action exec_mode"
  have room: "length (buf (ems_chan (book st))) < max_buffer_size (ems_chan (book st))"
    using Suc.prems by simp
  note s = step_Send_room [OF room, of uuid symbol price size' action exec_mode]
  have "length (buf (ems_chan (book (step st ?c)))) + Suc n
        \<le> max_buffer_size (ems_chan (book (step st ?c)))"
    using Suc.prems s by simp
  from Suc.IH [OF this] s show ?case
    by (simp add: fun_eq_iff del: step.simps)
qed

lemma full_book_reachable:
  "book (run (start empty_book) (replicate 100 (Send ''abc-1'' aapl 150 100 ''buy'' ''dark''))) =
   full_book"
proof -
  have "length (buf (ems_chan (book (start empty_book)))) + Suc 99
        \<le> max_buffer_size (ems_chan (book (start empty_book)))"
    by (simp add: start_def empty_book_def open_memory_channel_def)
  from run_replicate_Send [OF this, of "''abc-1''" aapl 150 100 "''buy''" "''dark''"]
  show ?thesis
    by (simp add: start_def empty_book_def open_memory_channel_def full_book_def buy_cmd_def
        OrderBook.equality channel.equality)
qed

section \<open>Properties of the singleton factory\<close>

lemma get_orders_first:
  "orders p = None \<Longrightarrow>
   get_orders uid p =
     (length (heap p),
      p\<lparr>heap := heap p @ [\<lparr>ems_chan = \<lparr>buf = [], max_buffer_size = 100\<rparr>,
                            sent_orders = Map.empty, ready_to_receive = False\<rparr>],
        orders := Some (length (heap p))\<rparr>)"
  by (simp add: get_orders_def open_memory_channel_def Let_def)

lemma get_orders_later: "orders p = Some r \<Longrightarrow> get_orders uid p = (r, p)"
  by (simp add: get_orders_def)

lemma get_orders_sets: "get_orders uid p = (r, p1) \<Longrightarrow> orders p1 = Some r"
  by (cases "orders p") (auto simp: get_orders_first get_orders_later)

lemma perform_singleton:
  "orders p = Some r \<Longrightarrow> perform p as = (rs, p2) \<Longrightarrow>
   rs = replicate (length rs) r \<and> orders p2 = Some r \<and> length (heap p2) = length (heap p)"
proof (induction as arbitrary: p rs p2)
  case Nil
  then show ?case by simp
next
  case (Cons a as)
  show ?case
  proof (cases a)
    case (GetOrders uid)
    obtain rs' p' where p': "perform p as = (rs', p')"
      by (cases "perform p as")
    have g: "get_orders uid p = (r, p)"
      using Cons.prems(1) by (rule get_orders_later)
    have "rs' = replicate (length rs') r \<and> orders p' = Some r
        \<and> length (heap p') = length (heap p)"
      using Cons.prems(1) p' by (rule Cons.IH)
    moreover have "rs = r # rs'" "p2 = p'"
      using Cons.prems(2) GetOrders g p' by simp_all
    ultimately show ?thesis by simp
  next
    case (Method r' f)
    have "orders (update_book r' f p) = Some r"
      using Cons.prems(1) by (simp add: update_book_def)
    moreover have "perform (update_book r' f p) as = (rs, p2)"
      using Cons.prems(2) Method by simp
    ultimately have "rs = replicate (length rs) r \<and> orders p2 = Some r
        \<and> length (heap p2) = length (heap (update_book r' f p))"
      by (rule Cons.IH)
    then show ?thesis by (simp add: update_book_def)
  qed
qed

section \<open>Properties of the broker API proxy\<close>

lemma api_not_found:
  "api_attrs client methname = None \<Longrightarrow> attrs client methname = None \<Longrightarrow>
   api client methname kwargs = Inr None"
  by (simp add: api_def)

lemma api_prefers_api_attrs:
  "api_attrs client methname = Some m \<Longrightarrow>
   api client methname kwargs =
     (if kwargs = [] \<and> parameters m \<noteq> [] then Inr None else invoke m kwargs)"
  by (simp add: api_def)

lemma api_falls_back:
  "api_attrs client methname = None \<Longrightarrow> attrs client methname = Some m \<Longrightarrow>
   api client methname kwargs =
     (if kwargs = [] \<and> parameters m \<noteq> [] then Inr None else invoke m kwargs)"
  by (simp add: api_def)

lemma requires_arguments_parameters: "requires_arguments m \<Longrightarrow> parameters m \<noteq> []"
  by (auto simp: requires_arguments_def)

section \<open>The claims\<close>

subsection \<open>C1: what \<open>send\<close> does\<close>

text \<open>
  Claim C1, as amended. Every call of \<^verbatim>\<open>send\<close> constructs the command with the fields
  action, price, size, symbol key, brokers, oid and exec\_mode and stores it in the
  registry under the order id, overwriting a prior command for that id. When the command
  channel holds fewer pending commands than its capacity, the call also puts that same
  command at the end of the channel and returns it. Hence after any sequence of \<^verbatim>\<open>send\<close>
  calls (with turns of the relay in between or not) the registry maps every id that was
  sent to the last command sent for it and leaves the other ids as they were; starting
  from an empty registry, its ids are exactly the ids that were sent.
\<close>

theorem send_stores_enqueues_returns:
  "order_cmd uuid symbol price size' action exec_mode =
     [(''action'', Str action), (''price'', Num price), (''size'', Num size'),
      (''symbol'', Str (key symbol)), (''brokers'', Brokers (brokers symbol)),
      (''oid'', Str uuid), (''exec_mode'', Str exec_mode)]
   \<and> (length (buf (ems_chan self)) < max_buffer_size (ems_chan self) \<longrightarrow>
        send self uuid symbol price size' action exec_mode =
          (self\<lparr>sent_orders :=
                   (sent_orders self)(uuid \<mapsto> order_cmd uuid symbol price size' action exec_mode),
                ems_chan :=
                   (ems_chan self)\<lparr>buf := buf (ems_chan self) @
                                     [order_cmd uuid symbol price size' action exec_mode]\<rparr>\<rparr>,
           Inr (order_cmd uuid symbol price size' action exec_mode)))
   \<and> sent_orders (fst (send self uuid symbol price size' action exec_mode)) =
        (sent_orders self)(uuid \<mapsto> order_cmd uuid symbol price size' action exec_mode)
   \<and> (\<forall>u. sent_orders (book (run st cs)) u =
          (case last_sent u cs of None \<Rightarrow> sent_orders (book st) u | Some c \<Rightarrow> Some c))
   \<and> (sent_orders b = Map.empty \<longrightarrow>
        dom (sent_orders (book (run (start b) cs))) = set (sent_ids cs))"
proof -
  have "dom (sent_orders (book (run (start b) cs))) = set (sent_ids cs)"
    if "sent_orders b = Map.empty"
    using that run_registry_dom [of "start b" cs] by (simp add: start_def)
  then show ?thesis
    using send_room [of self uuid symbol price size' action exec_mode]
    by (simp add: order_cmd_def [symmetric] send_writes_registry run_registry)
qed

text \<open>
  The theorem at the spec's example scenario: the first \<^verbatim>\<open>send\<close> on a new book, and a
  run of two \<^verbatim>\<open>send\<close> calls with a turn of the relay between them.
\<close>

theorem send_stores_enqueues_returns_witness:
  "length (buf (ems_chan empty_book)) < max_buffer_size (ems_chan empty_book)
   \<and> send empty_book ''abc-1'' aapl 150 100 ''buy'' ''dark'' =
       (empty_book\<lparr>sent_orders := [''abc-1'' \<mapsto> buy_cmd],
                   ems_chan := \<lparr>buf = [buy_cmd], max_buffer_size = 100\<rparr>\<rparr>,
        Inr buy_cmd)
   \<and> buy_cmd =
       [(''action'', Str ''buy''), (''price'', Num 150), (''size'', Num 100),
        (''symbol'', Str ''AAPL''), (''brokers'', Brokers [''ib'']),
        (''oid'', Str ''abc-1''), (''exec_mode'', Str ''dark'')]
   \<and> sent_orders empty_book = Map.empty
   \<and> dom (sent_orders (book (run (start empty_book)
         [Send ''abc-1'' aapl 150 100 ''buy'' ''dark'', Next,
          Send ''abc-2'' aapl 151 5 ''sell'' ''live'']))) = {''abc-1'', ''abc-2''}"
  using send_stores_enqueues_returns
    [of "''abc-1''" aapl 150 100 "''buy''" "''dark''" empty_book "start empty_book"
        "[Send ''abc-1'' aapl 150 100 ''buy'' ''dark'', Next,
          Send ''abc-2'' aapl 151 5 ''sell'' ''live'']" empty_book]
  by (simp add: empty_book_def open_memory_channel_def buy_cmd_def aapl_def)

text \<open>
  C1 as stated fails on a full channel: on the book with one hundred pending commands,
  \<^verbatim>\<open>send\<close> raises \<^verbatim>\<open>WouldBlock\<close> instead of returning the command, and the channel holds
  what it held before.
\<close>

theorem send_full_counterexample:
  "snd (send full_book ''abc-2'' aapl 151 5 ''sell'' ''live'') = Inl WouldBlock
   \<and> buf (ems_chan (fst (send full_book ''abc-2'' aapl 151 5 ''sell'' ''live''))) =
       buf (ems_chan full_book)"
  by (simp add: send_def send_nowait_def full_book_def Let_def)

subsection \<open>C2: the relay is first in, first out\<close>

text \<open>
  Claim C2. In every interleaving of \<^verbatim>\<open>send\<close> calls and turns of the relay, the commands
  that the relay has yielded, followed by the commands still pending in the channel, are
  the commands that were pending at the start followed by the commands that \<^verbatim>\<open>send\<close>
  enqueued, in the order of the calls: nothing is reordered, dropped or repeated. Once the
  relay has taken as many further turns as there are pending commands, it has yielded all
  of them. One turn of the relay yields exactly the oldest pending command (none when the
  channel is empty) and removes it from the channel: there is no batching or coalescing.
\<close>

theorem relay_fifo:
  "yielded (run (start b) cs) @ buf (ems_chan (book (run (start b) cs))) =
     buf (ems_chan b) @ sent (run (start b) cs)
   \<and> yielded (run (start b)
        (cs @ replicate (length (buf (ems_chan (book (run (start b) cs))))) Next)) =
     buf (ems_chan b) @ sent (run (start b) cs)
   \<and> yielded (step st Next) = yielded st @ take 1 (buf (ems_chan (book st)))
   \<and> buf (ems_chan (book (step st Next))) = drop 1 (buf (ems_chan (book st)))"
proof -
  let ?st = "run (start b) cs"
  have "yielded (run ?st (replicate (length (buf (ems_chan (book ?st)))) Next)) =
        yielded ?st @ buf (ems_chan (book ?st))"
    using run_drain [of ?st "length (buf (ems_chan (book ?st)))"] by simp
  then show ?thesis
    using run_fifo [of b cs] step_Next_take [of st] by (simp add: run_append del: step.simps)
qed

text \<open>
  The theorem at a run of three \<^verbatim>\<open>send\<close> calls and three turns of the relay on a new
  book: two commands have been yielded, in the order sent, and the third is pending.
\<close>

theorem relay_fifo_witness:
  "sent (run (start empty_book)
     [Send ''abc-1'' aapl 150 100 ''buy'' ''dark'', Next, Next,
      Send ''abc-2'' aapl 151 5 ''sell'' ''live'',
      Send ''abc-3'' aapl 152 7 ''alert'' ''dark'', Next]) =
     [buy_cmd, order_cmd ''abc-2'' aapl 151 5 ''sell'' ''live'',
      order_cmd ''abc-3'' aapl 152 7 ''alert'' ''dark'']
   \<and> yielded (run (start empty_book)
     [Send ''abc-1'' aapl 150 100 ''buy'' ''dark'', Next, Next,
      Send ''abc-2'' aapl 151 5 ''sell'' ''live'',
      Send ''abc-3'' aapl 152 7 ''alert'' ''dark'', Next]) =
     [buy_cmd, order_cmd ''abc-2'' aapl 151 5 ''sell'' ''live'']
   \<and> buf (ems_chan (book (run (start empty_book)
     [Send ''abc-1'' aapl 150 100 ''buy'' ''dark'', Next, Next,
      Send ''abc-2'' aapl 151 5 ''sell'' ''live'',
      Send ''abc-3'' aapl 152 7 ''alert'' ''dark'', Next]))) =
     [order_cmd ''abc-3'' aapl 152 7 ''alert'' ''dark'']"
  using relay_fifo
    [of empty_book
        "[Send ''abc-1'' aapl 150 100 ''buy'' ''dark'', Next, Next,
          Send ''abc-2'' aapl 151 5 ''sell'' ''live'',
          Send ''abc-3'' aapl 152 7 ''alert'' ''dark'', Next]"
        "start empty_book"]
  by (simp add: start_def empty_book_def open_memory_channel_def send_def send_nowait_def
      send_order_cmds_next_def receive_def buy_cmd_def Let_def)

subsection \<open>C3: \<open>cancel\<close> of an unknown order\<close>

text \<open>
  Claim C3. For an order id that is not in the registry, \<^verbatim>\<open>cancel\<close> raises \<^verbatim>\<open>KeyError\<close> for
  that id, the "no such order" condition, and the book after the call is the book before
  it: nothing is enqueued and the channel is unchanged.
\<close>

theorem cancel_unknown_order:
  "sent_orders self uuid = None \<Longrightarrow> cancel self uuid = (self, Inl (KeyError uuid))"
  by (simp add: cancel_def)

theorem cancel_unknown_order_witness:
  "sent_orders one_book ''zzz'' = None
   \<and> cancel one_book ''zzz'' = (one_book, Inl (KeyError ''zzz''))"
  using cancel_unknown_order [of one_book "''zzz''"]
  by (simp add: one_book_def)

subsection \<open>C4: \<open>cancel\<close> of a known order\<close>

text \<open>
  Claim C4, as amended. For an order id in the registry whose stored command has a
  symbol: when the command channel holds fewer pending commands than its capacity,
  \<^verbatim>\<open>cancel\<close> puts exactly the message with action cancel, the order id as oid and the
  stored symbol at the end of the channel and returns; when the channel is full it raises
  \<^verbatim>\<open>WouldBlock\<close> and enqueues nothing. In both cases the registry is unchanged.
\<close>

theorem cancel_present_order:
  "sent_orders self uuid = Some cmd \<Longrightarrow> map_of cmd ''symbol'' = Some symb \<Longrightarrow>
   (length (buf (ems_chan self)) < max_buffer_size (ems_chan self) \<longrightarrow>
      cancel self uuid =
        (self\<lparr>ems_chan :=
                 (ems_chan self)\<lparr>buf := buf (ems_chan self) @
                   [[(''action'', Str ''cancel''), (''oid'', Str uuid), (''symbol'', symb)]]\<rparr>\<rparr>,
         Inr ()))
   \<and> (\<not> length (buf (ems_chan self)) < max_buffer_size (ems_chan self) \<longrightarrow>
        cancel self uuid = (self, Inl WouldBlock))
   \<and> sent_orders (fst (cancel self uuid)) = sent_orders self"
  by (simp add: cancel_def send_nowait_def cancel_msg_def)

text \<open>
  The theorem at the spec's example scenario (\<^verbatim>\<open>cancel\<close> after the first \<^verbatim>\<open>send\<close>) and at
  the full book.
\<close>

theorem cancel_present_order_witness:
  "sent_orders one_book ''abc-1'' = Some buy_cmd
   \<and> map_of buy_cmd ''symbol'' = Some (Str ''AAPL'')
   \<and> length (buf (ems_chan one_book)) < max_buffer_size (ems_chan one_book)
   \<and> cancel one_book ''abc-1'' =
       (one_book\<lparr>ems_chan := \<lparr>buf = [buy_cmd,
            [(''action'', Str ''cancel''), (''oid'', Str ''abc-1''), (''symbol'', Str ''AAPL'')]],
          max_buffer_size = 100\<rparr>\<rparr>, Inr ())
   \<and> \<not> length (buf (ems_chan full_book)) < max_buffer_size (ems_chan full_book)
   \<and> sent_orders full_book ''abc-1'' = Some buy_cmd
   \<and> sent_orders (fst (cancel full_book ''abc-1'')) = sent_orders full_book"
proof -
  have r: "sent_orders one_book ''abc-1'' = Some buy_cmd"
    by (simp add: one_book_def)
  have f: "sent_orders full_book ''abc-1'' = Some buy_cmd"
    by (simp add: full_book_def)
  have s: "map_of buy_cmd ''symbol'' = Some (Str ''AAPL'')"
    by (simp add: buy_cmd_def order_cmd_def aapl_def)
  have room: "length (buf (ems_chan one_book)) < max_buffer_size (ems_chan one_book)"
    by (simp add: one_book_def)
  have norm: "\<not> length (buf (ems_chan full_book)) < max_buffer_size (ems_chan full_book)"
    by (simp add: full_book_def)
  show ?thesis
    using cancel_present_order [OF r s] cancel_present_order [OF f s] r f s room norm
    by (simp add: one_book_def)
qed

text \<open>
  C4 as stated fails on a full channel: the order is in the registry, and \<^verbatim>\<open>cancel\<close>
  raises \<^verbatim>\<open>WouldBlock\<close> and leaves the book, and so the channel, as it was.
\<close>

theorem cancel_full_counterexample:
  "sent_orders full_book ''abc-1'' = Some buy_cmd
   \<and> cancel full_book ''abc-1'' = (full_book, Inl WouldBlock)"
  by (simp add: cancel_def send_nowait_def full_book_def buy_cmd_def order_cmd_def)

subsection \<open>C5: \<open>modify\<close>\<close>

text \<open>
  Claim C5, as amended. \<^verbatim>\<open>modify\<close> is a stub without a body: for every order id and price
  it raises nothing, returns \<^verbatim>\<open>None\<close> and leaves the book as it was.
\<close>

theorem modify_is_a_stub:
  "snd (modify self oid price) = Inr None \<and> fst (modify self oid price) = self
   \<and> (\<forall>e. snd (modify self oid price) \<noteq> Inl e)"
  by (simp add: modify_def)

text \<open>
  C5 as stated fails: on the book of the example scenario \<^verbatim>\<open>modify\<close> completes without
  an exception.
\<close>

theorem modify_returns_none_counterexample:
  "modify one_book ''abc-1'' 155 = (one_book, Inr None)"
  by (simp add: modify_def)

subsection \<open>C6: capacity and overflow of the channel\<close>

text \<open>
  Claim C6. The book that \<^verbatim>\<open>get_orders\<close> creates has an empty channel of capacity 100. On
  a channel of capacity 100 that holds 100 pending commands a further \<^verbatim>\<open>send_nowait\<close>
  fails with \<^verbatim>\<open>WouldBlock\<close>; a \<^verbatim>\<open>send\<close> on a book with such a channel raises \<^verbatim>\<open>WouldBlock\<close>
  and the channel of the book is what it was.
\<close>

theorem channel_capacity_and_overflow:
  "(orders p = None \<longrightarrow>
      fst (get_orders uid p) < length (heap (snd (get_orders uid p)))
      \<and> ems_chan (heap (snd (get_orders uid p)) ! fst (get_orders uid p)) =
          \<lparr>buf = [], max_buffer_size = 100\<rparr>)
   \<and> (max_buffer_size ch = 100 \<and> length (buf ch) = 100 \<longrightarrow> send_nowait ch x = Inl WouldBlock)
   \<and> (max_buffer_size (ems_chan self) = 100 \<and> length (buf (ems_chan self)) = 100 \<longrightarrow>
        snd (send self uuid symbol price size' action exec_mode) = Inl WouldBlock
        \<and> ems_chan (fst (send self uuid symbol price size' action exec_mode)) = ems_chan self)"
  by (simp add: get_orders_first send_nowait_def send_no_room)

theorem channel_capacity_and_overflow_witness:
  "orders fresh_process = None
   \<and> ems_chan (heap (snd (get_orders None fresh_process)) ! fst (get_orders None fresh_process)) =
       \<lparr>buf = [], max_buffer_size = 100\<rparr>
   \<and> max_buffer_size (ems_chan full_book) = 100 \<and> length (buf (ems_chan full_book)) = 100
   \<and> send_nowait (ems_chan full_book) buy_cmd = Inl WouldBlock
   \<and> snd (send full_book ''abc-2'' aapl 151 5 ''sell'' ''live'') = Inl WouldBlock
   \<and> ems_chan (fst (send full_book ''abc-2'' aapl 151 5 ''sell'' ''live'')) = ems_chan full_book"
proof -
  have a: "orders fresh_process = None"
    by (simp add: fresh_process_def)
  have b: "max_buffer_size (ems_chan full_book) = 100 \<and> length (buf (ems_chan full_book)) = 100"
    by (simp add: full_book_def)
  show ?thesis
    using channel_capacity_and_overflow
      [of fresh_process None "ems_chan full_book" buy_cmd full_book
          "''abc-2''" aapl 151 5 "''sell''" "''live''"] a b
    by simp
qed

subsection \<open>C8: the broker API proxy\<close>

text \<open>
  Claim C8 at the client whose method \<^verbatim>\<open>quote\<close> has one parameter with a default.
  That method is found on the client (not on its \<^verbatim>\<open>api\<close>), it does not require arguments,
  and called without arguments it returns quotes; the proxy, called with no keyword
  arguments, does not call it and returns \<^verbatim>\<open>None\<close>.
\<close>

theorem api_rejects_optional_parameters:
  "api quote_client ''quote'' [] = Inr None
   \<and> \<not> requires_arguments quote_meth
   \<and> api_attrs quote_client ''quote'' = None
   \<and> attrs quote_client ''quote'' = Some quote_meth
   \<and> invoke quote_meth [] = Inr (Some ''quotes'')"
  by (simp add: api_def quote_client_def quote_meth_def requires_arguments_def)

subsection \<open>C9: one book per process\<close>

text \<open>
  Claim C9. After a first call of \<^verbatim>\<open>get_orders\<close> that returned a reference, whatever the
  clients of the module do next (calls of \<^verbatim>\<open>get_orders\<close> with any argument, method calls
  on books), every later call of \<^verbatim>\<open>get_orders\<close> returns that same reference, the global
  still holds it, and no further book is constructed. When the global was unset, the first
  call constructed exactly one book and returned the reference to it.
\<close>

theorem get_orders_singleton:
  "get_orders uid1 p = (r1, p1) \<Longrightarrow> perform p1 as = (rs, p2) \<Longrightarrow>
   orders p1 = Some r1
   \<and> rs = replicate (length rs) r1
   \<and> orders p2 = Some r1
   \<and> length (heap p2) = length (heap p1)
   \<and> get_orders uid2 p2 = (r1, p2)
   \<and> (orders p = None \<longrightarrow> length (heap p1) = Suc (length (heap p)) \<and> r1 = length (heap p))"
proof -
  assume g: "get_orders uid1 p = (r1, p1)" and pf: "perform p1 as = (rs, p2)"
  have o1: "orders p1 = Some r1"
    using g by (rule get_orders_sets)
  have rest: "rs = replicate (length rs) r1 \<and> orders p2 = Some r1
      \<and> length (heap p2) = length (heap p1)"
    using o1 pf by (rule perform_singleton)
  then have again: "get_orders uid2 p2 = (r1, p2)"
    by (simp add: get_orders_later)
  have "length (heap p1) = Suc (length (heap p)) \<and> r1 = length (heap p)" if "orders p = None"
    using get_orders_first [OF that, of uid1] g by auto
  then show ?thesis
    using o1 rest again by blast
qed

text \<open>
  The theorem in a process that starts without a book: the first call creates it, then a
  call with an \<^verbatim>\<open>emsd_uid\<close>, a \<^verbatim>\<open>send\<close> through the reference and a call without argument.
\<close>

theorem get_orders_singleton_witness:
  "get_orders None fresh_process =
     (0, \<lparr>heap = [empty_book], orders = Some 0\<rparr>)
   \<and> perform \<lparr>heap = [empty_book], orders = Some 0\<rparr>
       [GetOrders (Some (''emsd'', ''uid'')),
        Method 0 (\<lambda>b. fst (send b ''abc-1'' aapl 150 100 ''buy'' ''dark'')),
        GetOrders None] =
     ([0, 0], \<lparr>heap = [one_book], orders = Some 0\<rparr>)
   \<and> orders fresh_process = None
   \<and> get_orders (Some (''emsd'', ''uid'')) \<lparr>heap = [one_book], orders = Some 0\<rparr> =
       (0, \<lparr>heap = [one_book], orders = Some 0\<rparr>)"
proof -
  have g: "get_orders None fresh_process = (0, \<lparr>heap = [empty_book], orders = Some 0\<rparr>)"
    by (simp add: get_orders_def fresh_process_def empty_book_def)
  have s: "fst (send empty_book ''abc-1'' aapl 150 100 ''buy'' ''dark'') = one_book"
    by (simp add: send_def send_nowait_def empty_book_def one_book_def open_memory_channel_def
        buy_cmd_def Let_def)
  have pf: "perform \<lparr>heap = [empty_book], orders = Some 0\<rparr>
       [GetOrders (Some (''emsd'', ''uid'')),
        Method 0 (\<lambda>b. fst (send b ''abc-1'' aapl 150 100 ''buy'' ''dark'')),
        GetOrders None] =
     ([0, 0], \<lparr>heap = [one_book], orders = Some 0\<rparr>)"
    by (simp add: get_orders_def update_book_def s)
  have n: "orders fresh_process = None"
    by (simp add: fresh_process_def)
  show ?thesis
    using get_orders_singleton [OF g pf, of "Some (''emsd'', ''uid'')"] g pf n by simp
qed

subsection \<open>C10: \<open>send\<close> is not atomic\<close>

text \<open>
  Claim C10. Whenever \<^verbatim>\<open>send\<close> raises, the exception is \<^verbatim>\<open>WouldBlock\<close> and the book it
  leaves behind is the book before the call with the registry already updated: the order
  id maps to the newly constructed command.
\<close>

theorem send_registry_kept_on_failure:
  "send self uuid symbol price size' action exec_mode = (self', Inl err) \<Longrightarrow>
   err = WouldBlock
   \<and> sent_orders self' uuid = Some (order_cmd uuid symbol price size' action exec_mode)
   \<and> self' = self\<lparr>sent_orders :=
                   (sent_orders self)(uuid \<mapsto> order_cmd uuid symbol price size' action exec_mode)\<rparr>"
proof -
  assume a: "send self uuid symbol price size' action exec_mode = (self', Inl err)"
  from send_raises_only_when_full [OF a]
    send_no_room [of self uuid symbol price size' action exec_mode] a
  show ?thesis by auto
qed

theorem send_registry_kept_on_failure_witness:
  "send full_book ''abc-2'' aapl 151 5 ''sell'' ''live'' =
     (full_book\<lparr>sent_orders := [''abc-1'' \<mapsto> buy_cmd,
        ''abc-2'' \<mapsto> order_cmd ''abc-2'' aapl 151 5 ''sell'' ''live'']\<rparr>, Inl WouldBlock)
   \<and> sent_orders (full_book\<lparr>sent_orders := [''abc-1'' \<mapsto> buy_cmd,
        ''abc-2'' \<mapsto> order_cmd ''abc-2'' aapl 151 5 ''sell'' ''live'']\<rparr>) ''abc-2'' =
      Some (order_cmd ''abc-2'' aapl 151 5 ''sell'' ''live'')"
proof -
  have a: "send full_book ''abc-2'' aapl 151 5 ''sell'' ''live'' =
     (full_book\<lparr>sent_orders := [''abc-1'' \<mapsto> buy_cmd,
        ''abc-2'' \<mapsto> order_cmd ''abc-2'' aapl 151 5 ''sell'' ''live'']\<rparr>, Inl WouldBlock)"
    by (simp add: send_def send_nowait_def full_book_def Let_def)
  show ?thesis
    using send_registry_kept_on_failure [OF a] a by simp
qed

end
